theory Spec2Isabelle
  imports Main "HOL-Library.Multiset" "HOL-Library.Sublist"
begin

section \<open>The plugin-side RPC client of tflint/client.go\<close>

text \<open>
  The Go file declares the type \<open>Client\<close> and its methods \<open>WalkResourceAttributes\<close>,
  \<open>EvaluateExpr\<close>, \<open>EmitIssue\<close> and \<open>EnsureNoError\<close>. Every method is embedded as a HOL
  function of the same name. What a method does besides returning its value is made
  explicit: the host reached through \<open>rpcClient.Call\<close>, the handlers and
  continuations passed by the caller and the standard logger act on a state that is
  passed in and returned, an \<open>error\<close> result is a value of type \<open>go_error option\<close>
  (\<open>None\<close> is Go's \<open>nil\<close>), and a panic is a constructor of the result.
\<close>

subsection \<open>Errors\<close>

text \<open>
  Modelled from the spec: the struct \<open>Error\<close> and the constants \<open>WarningLevel\<close>,
  \<open>ErrorLevel\<close>, \<open>TypeConversionError\<close> and \<open>TypeMismatchError\<close> are used by client.go and
  declared in another file of the package. The spec's data model gives a classified
  error a kind, a severity, a human message and an underlying cause. The level and the
  code are closed enumerations here, with one more constructor each for every value that
  client.go does not name.
\<close>

datatype error_level = WarningLevel | ErrorLevel | OtherLevel nat

datatype error_code = TypeConversionError | TypeMismatchError | OtherCode nat

text \<open>
  A value of Go's interface type \<open>error\<close> that is not \<open>nil\<close> is a \<open>go_error\<close>:
  a pointer to an \<open>Error\<close> (\<open>AppError\<close>), the nil pointer of type \<open>*Error\<close> stored in
  the interface (\<open>NilAppError\<close>: the interface value is not nil, the assertion
  \<open>err.(*Error)\<close> succeeds and reading a field of it is a nil dereference), or a value of
  any other dynamic type (\<open>ForeignError\<close>: transport faults, handler failures, the causes
  reported by the conversion library).
\<close>

datatype Error = MkError (Code: error_code) (Level: error_level) (Message: string)
    (Cause: "go_error option")
  and go_error = AppError Error | NilAppError | ForeignError string

text \<open>How a call ends: it returns its \<open>error\<close> result, or it panics.\<close>

datatype panic_value = PanicWith go_error | NilDereference

datatype outcome = Returned "go_error option" | Panicked panic_value

subsection \<open>EnsureNoError\<close>

text \<open>
  \<open>proc\<close> is a Go closure: it may change the state it captured, so it takes the state
  and returns its result with the new state.
\<close>

definition EnsureNoError ::
  "go_error option \<Rightarrow> ('s \<Rightarrow> go_error option \<times> 's) \<Rightarrow> 's \<Rightarrow> outcome \<times> 's" where
  "EnsureNoError err proc s =
     (case err of
        None \<Rightarrow> (case proc s of (r, s') \<Rightarrow> (Returned r, s'))
      | Some (AppError appErr) \<Rightarrow>
          (case Level appErr of
             WarningLevel \<Rightarrow> (Returned None, s)
           | ErrorLevel \<Rightarrow> (Returned (Some (AppError appErr)), s)
           | OtherLevel n \<Rightarrow> (Panicked (PanicWith (AppError appErr)), s))
      | Some NilAppError \<Rightarrow> (Panicked NilDereference, s)
      | Some (ForeignError m) \<Rightarrow> (Returned (Some (ForeignError m)), s))"

text \<open>
  An observer for "how often was it run": \<open>counted proc\<close> behaves as \<open>proc\<close> on the second
  component of the state and adds one to the first component each time it is run.
\<close>

definition counted :: "('s \<Rightarrow> 'r \<times> 's) \<Rightarrow> nat \<times> 's \<Rightarrow> 'r \<times> (nat \<times> 's)" where
  "counted proc = (\<lambda>(n, s). case proc s of (r, s') \<Rightarrow> (r, (Suc n, s')))"

subsection \<open>The transport\<close>

text \<open>
  \<open>rpcClient.Call(method, args, &reply)\<close> of net/rpc sends one request and blocks
  until the answer arrives. It returns a non-nil error (\<open>Inl\<close>) or fills the reply
  (\<open>Inr\<close>); what it does to the host is the change of the state \<open>'w\<close>. A method of
  the client takes the \<open>Call\<close> of its connection as its first argument, at the types
  of the request and the reply it uses.
\<close>

type_synonym ('req, 'resp, 'w) rpc_call =
  "string \<Rightarrow> 'req \<Rightarrow> 'w \<Rightarrow> (go_error + 'resp) \<times> 'w"

text \<open>
  Two calls for stating examples: a host that answers every request with \<open>resp\<close>, and a
  connection on which every request fails with \<open>err\<close>.
\<close>

definition replying :: "'resp \<Rightarrow> ('req, 'resp, 'w) rpc_call" where
  "replying resp = (\<lambda>method args w. (Inr resp, w))"

definition failing :: "go_error \<Rightarrow> ('req, 'resp, 'w) rpc_call" where
  "failing err = (\<lambda>method args w. (Inl err, w))"

subsection \<open>Source positions, expressions and attributes\<close>

text \<open>
  Modelled from the spec: the types \<open>hcl.Pos\<close>, \<open>hcl.Range\<close>, \<open>hcl.Expression\<close>
  and \<open>hcl.Attribute\<close> are declared by the hcl library that client.go imports. The spec
  asks of an expression and a location that they expose a source file name and a start
  line and column, and of an attribute that it carries the field name, its source
  expression and its source location. An expression is an interface value; the record
  keeps its source text and what its method \<open>Range()\<close> returns. The field \<open>Range\<close> of
  an attribute is \<open>AttrRange\<close> here, since \<open>Range\<close> names the method of an expression.
\<close>

record hcl_Pos =
  Line :: int
  Column :: int
  Byte :: int

record hcl_Range =
  Filename :: string
  Start :: hcl_Pos
  End :: hcl_Pos

record hcl_Expression =
  Source :: string
  Range :: hcl_Range

record hcl_Attribute =
  Name :: string
  Expr :: hcl_Expression
  AttrRange :: hcl_Range
  NameRange :: hcl_Range

text \<open>
  The reply \<open>resp\<close> has the type \<open>hcl.Attributes\<close>, which the hcl library declares as
  \<open>map[string]*Attribute\<close>: the attributes keyed by their names. A Go map has no order
  of its own. The reply is the list of the map's entries in the order in which the host
  wrote them to the connection, and the statement \<open>for _, attribute := range resp\<close>
  visits the entries of the decoded map in an order that the Go runtime picks: the
  parameter \<open>range_order\<close> of the method, which is the identity when the runtime
  happens to follow the host. Whatever the runtime picks, it visits every entry once,
  which is \<open>range_visits\<close>.
\<close>

type_synonym hcl_Attributes = "(string \<times> hcl_Attribute) list"

definition range_visits :: "(hcl_Attributes \<Rightarrow> hcl_Attributes) \<Rightarrow> hcl_Attributes \<Rightarrow> bool" where
  "range_visits range_order resp \<longleftrightarrow> mset (range_order resp) = mset resp"

subsection \<open>WalkResourceAttributes\<close>

record AttributesRequest =
  Resource :: string
  AttributeName :: string

text \<open>
  The \<open>for\<close> loop of the method over the attributes in the order of the visit. The
  walker is a Go closure: it takes the state and returns its error with the new state.
\<close>

fun walk_range ::
  "(hcl_Attribute \<Rightarrow> 'w \<Rightarrow> go_error option \<times> 'w) \<Rightarrow> hcl_Attribute list \<Rightarrow> 'w
     \<Rightarrow> go_error option \<times> 'w" where
  "walk_range walker [] w = (None, w)"
| "walk_range walker (attribute # rest) w =
     (case walker attribute w of
        (Some err, w') \<Rightarrow> (Some err, w')
      | (None, w') \<Rightarrow> walk_range walker rest w')"

definition WalkResourceAttributes ::
  "(AttributesRequest, hcl_Attributes, 'w) rpc_call \<Rightarrow> (hcl_Attributes \<Rightarrow> hcl_Attributes)
     \<Rightarrow> string \<Rightarrow> string \<Rightarrow> (hcl_Attribute \<Rightarrow> 'w \<Rightarrow> go_error option \<times> 'w) \<Rightarrow> 'w
     \<Rightarrow> go_error option \<times> 'w" where
  "WalkResourceAttributes call range_order resource attributeName walker w =
     (case call ''Plugin.Attributes''
             \<lparr>Resource = resource, AttributeName = attributeName\<rparr> w of
        (Inl err, w') \<Rightarrow> (Some err, w')
      | (Inr resp, w') \<Rightarrow> walk_range walker (map snd (range_order resp)) w')"

text \<open>
  An observer for "which attributes were delivered, in which order": \<open>recording walker\<close>
  behaves as \<open>walker\<close> on the second component of the state and appends every attribute
  it is called with to the first component. \<open>beside call\<close> is \<open>call\<close> acting on the
  second component, so that a call and a recording walker share a state.
\<close>

definition recording ::
  "('a \<Rightarrow> 's \<Rightarrow> 'r \<times> 's) \<Rightarrow> 'a \<Rightarrow> 'a list \<times> 's \<Rightarrow> 'r \<times> ('a list \<times> 's)" where
  "recording walker a = (\<lambda>(seen, s). case walker a s of (r, s') \<Rightarrow> (r, (seen @ [a], s')))"

definition beside :: "('req, 'resp, 'w) rpc_call \<Rightarrow> ('req, 'resp, 't \<times> 'w) rpc_call" where
  "beside call = (\<lambda>method args (t, w). case call method args w of (r, w') \<Rightarrow> (r, (t, w')))"

subsection \<open>Dynamic values and destinations\<close>

text \<open>
  Modelled from the spec: the types \<open>cty.Type\<close> and \<open>cty.Value\<close> belong to the go-cty
  library that client.go imports. The spec's DynamicValue is one of string, number,
  boolean, list, map, null or unknown. Numbers are the whole numbers here (the library's
  numbers are arbitrary-precision floats); a list and a map carry their element type, as
  do the null and the unknown value.
\<close>

datatype cty_type = cty_Bool | cty_Number | cty_String | cty_List cty_type | cty_Map cty_type

datatype cty_value =
    BoolVal bool
  | NumberVal int
  | StringVal string
  | ListVal cty_type "cty_value list"
  | MapVal cty_type "(string \<times> cty_value) list"
  | NullVal cty_type
  | UnknownVal cty_type

text \<open>
  The second argument of EvaluateExpr, \<open>ret interface{}\<close>, is a pointer to a variable of
  the caller: the dynamic type of \<open>ret\<close> is \<open>*T\<close> for the variable's type \<open>T\<close>
  (\<open>pointee\<close>), and the variable holds a value (\<open>content\<close>) that the call may
  overwrite. Go types and values are the ones a destination is built from: \<open>bool\<close>,
  \<open>int\<close>, \<open>string\<close>, slices, and maps with string keys. A nil slice and an empty
  slice are the same value here, and so are a nil map and an empty map. An argument that
  is not a pointer, or a nil pointer, makes the decoder panic before it decodes anything
  and is not a destination of this model.
\<close>

datatype go_type = GoBool | GoInt | GoString | GoSlice go_type | GoMap go_type

datatype go_value =
    GoBoolV bool
  | GoIntV int
  | GoStringV string
  | GoSliceV "go_value list"
  | GoMapV "string \<Rightarrow> go_value option"

record destination =
  pointee :: go_type
  content :: go_value

text \<open>
  \<open>convert.Convert\<close> and \<open>gocty.FromCtyValue\<close> are functions of the go-cty library.
  EvaluateExpr takes them as arguments: \<open>convert val ty\<close> returns the converted value
  or an error, and \<open>fromCty val ret\<close> returns its error and what the variable behind
  \<open>ret\<close> holds afterwards.
\<close>

type_synonym Convert = "cty_value \<Rightarrow> cty_type \<Rightarrow> go_error + cty_value"

type_synonym FromCtyValue = "cty_value \<Rightarrow> destination \<Rightarrow> go_error option \<times> go_value"

subsection \<open>EvaluateExpr\<close>

text \<open>The statement \<open>switch ret.(type)\<close>: six cases and no default.\<close>

fun type_switch :: "Convert \<Rightarrow> go_type \<Rightarrow> cty_value \<Rightarrow> go_error + cty_value" where
  "type_switch convert GoString val = convert val cty_String"
| "type_switch convert GoInt val = convert val cty_Number"
| "type_switch convert (GoSlice GoString) val = convert val (cty_List cty_String)"
| "type_switch convert (GoSlice GoInt) val = convert val (cty_List cty_Number)"
| "type_switch convert (GoMap GoString) val = convert val (cty_Map cty_String)"
| "type_switch convert (GoMap GoInt) val = convert val (cty_Map cty_Number)"
| "type_switch convert _ val = Inr val"

text \<open>The supported destination shapes, as the spec lists them.\<close>

definition supported_shape :: "go_type \<Rightarrow> bool" where
  "supported_shape ty \<longleftrightarrow>
     ty \<in> {GoString, GoInt, GoSlice GoString, GoSlice GoInt, GoMap GoString, GoMap GoInt}"

text \<open>The verb \<open>%d\<close> of package fmt on an \<open>int\<close>: decimal digits, with a minus sign.\<close>

fun digits :: "nat \<Rightarrow> string" where
  "digits n = (if n < 10 then [''0123456789'' ! n]
               else digits (n div 10) @ [''0123456789'' ! (n mod 10)])"

declare digits.simps [simp del]

definition Itoa :: "int \<Rightarrow> string" where
  "Itoa i = (if i < 0 then CHR ''-'' # digits (nat (- i)) else digits (nat i))"

text \<open>
  \<open>fmt.Sprintf("Invalid type expression in %s:%d", expr.Range().Filename,
  expr.Range().Start.Line)\<close>
\<close>

definition invalid_type_expression :: "hcl_Expression \<Rightarrow> string" where
  "invalid_type_expression expr =
     ''Invalid type expression in '' @ Filename (Range expr) @ '':'' @ Itoa (Line (Start (Range expr)))"

text \<open>
  A call of \<open>log.Printf\<close> appends one record to the log of the standard logger: the
  format and the arguments.
\<close>

datatype log_record = Printf string "go_error list"

definition EvaluateExpr ::
  "(hcl_Expression, cty_value, 'w) rpc_call \<Rightarrow> Convert \<Rightarrow> FromCtyValue
     \<Rightarrow> hcl_Expression \<Rightarrow> destination \<Rightarrow> 'w \<times> log_record list
     \<Rightarrow> go_error option \<times> go_value \<times> ('w \<times> log_record list)" where
  "EvaluateExpr call convert fromCty expr ret = (\<lambda>(w, lg).
     case call ''Plugin.EvalExpr'' expr w of
       (Inl err, w') \<Rightarrow> (Some err, content ret, (w', lg))
     | (Inr val, w') \<Rightarrow>
         (case type_switch convert (pointee ret) val of
            Inl cause \<Rightarrow>
              (let err = AppError (MkError TypeConversionError ErrorLevel
                                    (invalid_type_expression expr) (Some cause))
               in (Some err, content ret, (w', lg @ [Printf ''[ERROR] %s'' [err]])))
          | Inr val' \<Rightarrow>
              (case fromCty val' ret of
                 (Some cause, stored) \<Rightarrow>
                   (let err = AppError (MkError TypeMismatchError ErrorLevel
                                         (invalid_type_expression expr) (Some cause))
                    in (Some err, stored, (w', lg @ [Printf ''[ERROR] %s'' [err]])))
               | (None, stored) \<Rightarrow> (None, stored, (w', lg)))))"

subsection \<open>EmitIssue\<close>

text \<open>
  The types \<open>Rule\<close>, \<open>RuleObject\<close> and \<open>Metadata\<close> and the function
  \<open>newObjectFromRule\<close> are declared in other files of the package: the types are type
  variables and the function is an argument. The field \<open>Message\<close> of the request is
  \<open>Message'\<close> here, since \<open>Message\<close> names the field of \<open>Error\<close>.
\<close>

record ('object, 'meta) EmitIssueRequest =
  Rule :: 'object
  Message' :: string
  Location :: hcl_Range
  Meta :: 'meta

definition EmitIssue ::
  "(('object, 'meta) EmitIssueRequest, unit, 'w) rpc_call \<Rightarrow> ('rule \<Rightarrow> 'object)
     \<Rightarrow> 'rule \<Rightarrow> string \<Rightarrow> hcl_Range \<Rightarrow> 'meta \<Rightarrow> 'w \<Rightarrow> go_error option \<times> 'w" where
  "EmitIssue call newObjectFromRule rule message location meta w =
     (let req = \<lparr>Rule = newObjectFromRule rule, Message' = message, Location = location,
                 Meta = meta\<rparr>
      in case call ''Plugin.EmitIssue'' req w of
           (Inl err, w') \<Rightarrow> (Some err, w')
         | (Inr reply, w') \<Rightarrow> (None, w'))"

subsection \<open>The conversion library\<close>

text \<open>
  Modelled from the spec: \<open>convert.Convert\<close> and \<open>gocty.FromCtyValue\<close> are functions of
  the go-cty library, which is not among the sources. The spec describes them as the
  Dynamic Value Converter: the type-level conversion permits string-to-number and
  homogeneous collection coercions and fails on incompatible element types, and the
  decoder binds list and map elements recursively into the static destination. The model
  follows the library on the values and types declared above. The texts of the errors
  are approximate; no property depends on them.
\<close>

fun cty_Type :: "cty_value \<Rightarrow> cty_type" where
  "cty_Type (BoolVal b) = cty_Bool"
| "cty_Type (NumberVal n) = cty_Number"
| "cty_Type (StringVal s) = cty_String"
| "cty_Type (ListVal ety vs) = cty_List ety"
| "cty_Type (MapVal ety es) = cty_Map ety"
| "cty_Type (NullVal ty) = ty"
| "cty_Type (UnknownVal ty) = ty"

fun FriendlyName :: "cty_type \<Rightarrow> string" where
  "FriendlyName cty_Bool = ''bool''"
| "FriendlyName cty_Number = ''number''"
| "FriendlyName cty_String = ''string''"
| "FriendlyName (cty_List ety) = ''list of '' @ FriendlyName ety"
| "FriendlyName (cty_Map ety) = ''map of '' @ FriendlyName ety"

definition mismatch :: "cty_type \<Rightarrow> go_error" where
  "mismatch want = ForeignError (FriendlyName want @ '' required'')"

text \<open>Whether the library has a conversion between two different types.\<close>

fun convertible :: "cty_type \<Rightarrow> cty_type \<Rightarrow> bool" where
  "convertible cty_String cty_Number = True"
| "convertible cty_String cty_Bool = True"
| "convertible cty_Number cty_String = True"
| "convertible cty_Bool cty_String = True"
| "convertible (cty_List a) (cty_List b) = (a = b \<or> convertible a b)"
| "convertible (cty_Map a) (cty_Map b) = (a = b \<or> convertible a b)"
| "convertible a b = False"

text \<open>
  \<open>cty.ParseNumberVal\<close> on the decimal notation of a whole number: digits, with an
  optional minus sign. The library also reads a plus sign, fractions and exponents; the
  model rejects these notations, and no property below depends on a string written in
  one of them.
\<close>

definition parse_digits :: "string \<Rightarrow> nat option" where
  "parse_digits s =
     (if s \<noteq> [] \<and> list_all (\<lambda>c. c \<in> set ''0123456789'') s
      then Some (foldl (\<lambda>n c. 10 * n + (of_char c - 48)) 0 s) else None)"

definition ParseNumberVal :: "string \<Rightarrow> int option" where
  "ParseNumberVal s =
     (case s of
        [] \<Rightarrow> None
      | c # ds \<Rightarrow>
          if c = CHR ''-'' then map_option (\<lambda>n. - int n) (parse_digits ds)
          else map_option int (parse_digits s))"

fun convert_Convert :: "cty_value \<Rightarrow> cty_type \<Rightarrow> go_error + cty_value"
  and convert_elems :: "cty_value list \<Rightarrow> cty_type \<Rightarrow> go_error + cty_value list"
  and convert_entries ::
    "(string \<times> cty_value) list \<Rightarrow> cty_type \<Rightarrow> go_error + (string \<times> cty_value) list" where
  "convert_Convert (StringVal s) want =
     (case want of
        cty_String \<Rightarrow> Inr (StringVal s)
      | cty_Number \<Rightarrow>
          (case ParseNumberVal s of
             Some n \<Rightarrow> Inr (NumberVal n)
           | None \<Rightarrow> Inl (ForeignError ''a number is required''))
      | cty_Bool \<Rightarrow>
          (if s = ''true'' \<or> s = ''1'' then Inr (BoolVal True)
           else if s = ''false'' \<or> s = ''0'' then Inr (BoolVal False)
           else Inl (ForeignError ''a bool is required''))
      | _ \<Rightarrow> Inl (mismatch want))"
| "convert_Convert (NumberVal n) want =
     (case want of
        cty_Number \<Rightarrow> Inr (NumberVal n)
      | cty_String \<Rightarrow> Inr (StringVal (Itoa n))
      | _ \<Rightarrow> Inl (mismatch want))"
| "convert_Convert (BoolVal b) want =
     (case want of
        cty_Bool \<Rightarrow> Inr (BoolVal b)
      | cty_String \<Rightarrow> Inr (StringVal (if b then ''true'' else ''false''))
      | _ \<Rightarrow> Inl (mismatch want))"
| "convert_Convert (ListVal ety vs) want =
     (case want of
        cty_List ety' \<Rightarrow>
          (if ety = ety' then Inr (ListVal ety vs)
           else if convertible ety ety' then
             (case convert_elems vs ety' of
                Inl err \<Rightarrow> Inl err
              | Inr vs' \<Rightarrow> Inr (ListVal ety' vs'))
           else Inl (mismatch want))
      | _ \<Rightarrow> Inl (mismatch want))"
| "convert_Convert (MapVal ety es) want =
     (case want of
        cty_Map ety' \<Rightarrow>
          (if ety = ety' then Inr (MapVal ety es)
           else if convertible ety ety' then
             (case convert_entries es ety' of
                Inl err \<Rightarrow> Inl err
              | Inr es' \<Rightarrow> Inr (MapVal ety' es'))
           else Inl (mismatch want))
      | _ \<Rightarrow> Inl (mismatch want))"
| "convert_Convert (NullVal ty) want =
     (if ty = want \<or> convertible ty want then Inr (NullVal want) else Inl (mismatch want))"
| "convert_Convert (UnknownVal ty) want =
     (if ty = want \<or> convertible ty want then Inr (UnknownVal want) else Inl (mismatch want))"
| "convert_elems [] want = Inr []"
| "convert_elems (v # vs) want =
     (case convert_Convert v want of
        Inl err \<Rightarrow> Inl err
      | Inr v' \<Rightarrow>
          (case convert_elems vs want of
             Inl err \<Rightarrow> Inl err
           | Inr vs' \<Rightarrow> Inr (v' # vs')))"
| "convert_entries [] want = Inr []"
| "convert_entries ((k, v) # es) want =
     (case convert_Convert v want of
        Inl err \<Rightarrow> Inl err
      | Inr v' \<Rightarrow>
          (case convert_entries es want of
             Inl err \<Rightarrow> Inl err
           | Inr es' \<Rightarrow> Inr ((k, v') # es')))"

text \<open>
  Go's \<open>int\<close> has 64 bits on the platforms the plugin runs on; the decoder refuses a
  number outside its range.
\<close>

definition in_int64 :: "int \<Rightarrow> bool" where
  "in_int64 n \<longleftrightarrow> - 9223372036854775808 \<le> n \<and> n \<le> 9223372036854775807"

fun required :: "go_type \<Rightarrow> go_error" where
  "required GoBool = ForeignError ''bool value is required''"
| "required GoInt = ForeignError ''number value is required''"
| "required GoString = ForeignError ''string value is required''"
| "required (GoSlice et) = ForeignError ''list or set value is required''"
| "required (GoMap et) = ForeignError ''map or object value is required''"

fun fromCtyValue :: "cty_value \<Rightarrow> go_type \<Rightarrow> go_error + go_value"
  and fromCtyElems :: "cty_value list \<Rightarrow> go_type \<Rightarrow> go_error + go_value list"
  and fromCtyEntries ::
    "(string \<times> cty_value) list \<Rightarrow> go_type \<Rightarrow> go_error + (string \<times> go_value) list" where
  "fromCtyValue (NullVal ty) target =
     (case ty of
        cty_List ety \<Rightarrow>
          (case target of GoSlice et \<Rightarrow> Inr (GoSliceV []) | _ \<Rightarrow> Inl (required target))
      | cty_Map ety \<Rightarrow>
          (case target of GoMap et \<Rightarrow> Inr (GoMapV Map.empty) | _ \<Rightarrow> Inl (required target))
      | _ \<Rightarrow> Inl (ForeignError ''null value is not allowed''))"
| "fromCtyValue (UnknownVal ty) target = Inl (ForeignError ''value must be known'')"
| "fromCtyValue (BoolVal b) target =
     (case target of GoBool \<Rightarrow> Inr (GoBoolV b) | _ \<Rightarrow> Inl (required target))"
| "fromCtyValue (NumberVal n) target =
     (case target of
        GoInt \<Rightarrow>
          (if in_int64 n then Inr (GoIntV n)
           else Inl (ForeignError ''value must be a whole number, between -9223372036854775808 and 9223372036854775807''))
      | _ \<Rightarrow> Inl (required target))"
| "fromCtyValue (StringVal s) target =
     (case target of GoString \<Rightarrow> Inr (GoStringV s) | _ \<Rightarrow> Inl (required target))"
| "fromCtyValue (ListVal ety vs) target =
     (case target of
        GoSlice et \<Rightarrow>
          (case fromCtyElems vs et of
             Inl err \<Rightarrow> Inl err
           | Inr xs \<Rightarrow> Inr (GoSliceV xs))
      | _ \<Rightarrow> Inl (required target))"
| "fromCtyValue (MapVal ety es) target =
     (case target of
        GoMap et \<Rightarrow>
          (case fromCtyEntries es et of
             Inl err \<Rightarrow> Inl err
           | Inr kvs \<Rightarrow> Inr (GoMapV (map_of kvs)))
      | _ \<Rightarrow> Inl (required target))"
| "fromCtyElems [] et = Inr []"
| "fromCtyElems (v # vs) et =
     (case fromCtyValue v et of
        Inl err \<Rightarrow> Inl err
      | Inr x \<Rightarrow>
          (case fromCtyElems vs et of
             Inl err \<Rightarrow> Inl err
           | Inr xs \<Rightarrow> Inr (x # xs)))"
| "fromCtyEntries [] et = Inr []"
| "fromCtyEntries ((k, v) # es) et =
     (case fromCtyValue v et of
        Inl err \<Rightarrow> Inl err
      | Inr x \<Rightarrow>
          (case fromCtyEntries es et of
             Inl err \<Rightarrow> Inl err
           | Inr kvs \<Rightarrow> Inr ((k, x) # kvs)))"

text \<open>
  The decoder writes the variable behind \<open>ret\<close> once, after the whole value has been
  decoded; when it fails the variable keeps what it held.
\<close>

definition gocty_FromCtyValue :: FromCtyValue where
  "gocty_FromCtyValue val ret =
     (case fromCtyValue val (pointee ret) of
        Inl err \<Rightarrow> (Some err, content ret)
      | Inr v \<Rightarrow> (None, v))"

subsection \<open>Examples\<close>

text \<open>Values for stating examples: a location, an attribute and a handler that counts
  its calls in the state and fails on the attribute of a given name.\<close>

definition at_line :: "string \<Rightarrow> int \<Rightarrow> hcl_Range" where
  "at_line file n =
     \<lparr>Filename = file, Start = \<lparr>Line = n, Column = 1, Byte = 0\<rparr>,
      End = \<lparr>Line = n, Column = 1, Byte = 0\<rparr>\<rparr>"

definition attribute_named :: "string \<Rightarrow> hcl_Attribute" where
  "attribute_named n =
     \<lparr>Name = n, Expr = \<lparr>Source = n, Range = at_line ''main.tf'' 1\<rparr>,
      AttrRange = at_line ''main.tf'' 1, NameRange = at_line ''main.tf'' 1\<rparr>"

definition failing_on :: "string \<Rightarrow> hcl_Attribute \<Rightarrow> nat \<Rightarrow> go_error option \<times> nat" where
  "failing_on n a k = (if Name a = n then Some (ForeignError ''handler failed'') else None, Suc k)"

section \<open>Properties\<close>

subsection \<open>EnsureNoError\<close>

text \<open>
  C1. EnsureNoError classifies its error argument four ways. Given nil it runs the
  continuation exactly once (the counter of a counted continuation goes from \<open>n\<close> to
  \<open>Suc n\<close>, and the state is the one the single run leaves) and returns the
  continuation's result. Given a classified error of Warning level it returns nil and
  does not run the continuation (counter and state unchanged). Given a classified error
  of Error level it returns that very error and does not run the continuation. Given a
  non-classified error it returns that error unchanged and does not run the
  continuation.
\<close>

theorem EnsureNoError_classification:
  "EnsureNoError None (counted proc) (n, s) =
     (Returned (fst (proc s)), (Suc n, snd (proc s)))
   \<and> EnsureNoError (Some (AppError (MkError cw WarningLevel mw kw))) (counted proc) (n, s) =
       (Returned None, (n, s))
   \<and> EnsureNoError (Some (AppError (MkError ce ErrorLevel me ke))) (counted proc) (n, s) =
       (Returned (Some (AppError (MkError ce ErrorLevel me ke))), (n, s))
   \<and> EnsureNoError (Some (ForeignError msg)) (counted proc) (n, s) =
       (Returned (Some (ForeignError msg)), (n, s))"
  by (simp add: EnsureNoError_def counted_def split: prod.splits)

theorem EnsureNoError_classification_witness:
  "EnsureNoError None (counted (\<lambda>s::nat. (Some (ForeignError ''late''), s + 5))) (0, 1) =
     (Returned (Some (ForeignError ''late'')), (Suc 0, 6))
   \<and> EnsureNoError (Some (AppError (MkError (OtherCode 3) WarningLevel ''w'' None)))
        (counted (\<lambda>s::nat. (Some (ForeignError ''late''), s + 5))) (0, 1) =
       (Returned None, (0, 1))
   \<and> EnsureNoError (Some (AppError (MkError TypeMismatchError ErrorLevel ''e'' None)))
        (counted (\<lambda>s::nat. (Some (ForeignError ''late''), s + 5))) (0, 1) =
       (Returned (Some (AppError (MkError TypeMismatchError ErrorLevel ''e'' None))), (0, 1))
   \<and> EnsureNoError (Some (ForeignError ''eof''))
        (counted (\<lambda>s::nat. (Some (ForeignError ''late''), s + 5))) (0, 1) =
       (Returned (Some (ForeignError ''eof'')), (0, 1))"
  using EnsureNoError_classification
    [where proc = "\<lambda>s::nat. (Some (ForeignError ''late''), s + 5)" and n = 0 and s = 1
       and cw = "OtherCode 3" and mw = "''w''" and kw = None
       and ce = TypeMismatchError and me = "''e''" and ke = None and msg = "''eof''"]
  by simp

text \<open>
  C2. For every classified error whose level is neither Warning nor Error,
  EnsureNoError panics with that error as the panic value: it does not return, whatever
  the continuation is, and it does not run the continuation.
\<close>

theorem EnsureNoError_unknown_level_panics:
  assumes "Level appErr \<noteq> WarningLevel" and "Level appErr \<noteq> ErrorLevel"
  shows "EnsureNoError (Some (AppError appErr)) proc s =
           (Panicked (PanicWith (AppError appErr)), s)
         \<and> (\<forall>r. fst (EnsureNoError (Some (AppError appErr)) proc s) \<noteq> Returned r)"
  using assms by (cases "Level appErr") (simp_all add: EnsureNoError_def)

theorem EnsureNoError_unknown_level_panics_witness:
  "Level (MkError (OtherCode 0) (OtherLevel 7) ''bad level'' None) \<noteq> WarningLevel
   \<and> Level (MkError (OtherCode 0) (OtherLevel 7) ''bad level'' None) \<noteq> ErrorLevel
   \<and> EnsureNoError (Some (AppError (MkError (OtherCode 0) (OtherLevel 7) ''bad level'' None)))
        (\<lambda>s::nat. (None, s + 1)) 0 =
       (Panicked (PanicWith (AppError (MkError (OtherCode 0) (OtherLevel 7) ''bad level'' None))), 0)"
  using EnsureNoError_unknown_level_panics
    [of "MkError (OtherCode 0) (OtherLevel 7) ''bad level'' None" "\<lambda>s::nat. (None, s + 1)" 0]
  by simp

subsection \<open>WalkResourceAttributes\<close>

lemma recording_apply:
  "recording walker a (seen, s) = (case walker a s of (r, s') \<Rightarrow> (r, (seen @ [a], s')))"
  by (simp add: recording_def)

lemma beside_apply:
  "beside call method args (t, w) = (case call method args w of (r, w') \<Rightarrow> (r, (t, w')))"
  by (simp add: beside_def)

lemma walk_range_append:
  "walk_range walker xs w = (None, w1) \<Longrightarrow>
   walk_range walker (xs @ ys) w = walk_range walker ys w1"
  by (induction xs arbitrary: w) (auto split: prod.splits option.splits)

lemma walk_range_recording_ok:
  "walk_range walker xs w = (None, w1) \<Longrightarrow>
   walk_range (recording walker) xs (seen, w) = (None, (seen @ xs, w1))"
  by (induction xs arbitrary: w seen) (auto simp: recording_apply split: prod.splits option.splits)

lemma walk_range_stops:
  "walk_range walker xs w = (None, w1) \<Longrightarrow> walker a w1 = (Some err, w2) \<Longrightarrow>
   walk_range walker (xs @ a # ys) w = (Some err, w2)"
  by (simp add: walk_range_append)

lemma walk_range_recording_prefix:
  "\<exists>d. fst (snd (walk_range (recording walker) xs (seen, w))) = seen @ d \<and> prefix d xs
     \<and> (fst (walk_range (recording walker) xs (seen, w)) = None \<longrightarrow> d = xs)"
proof (induction xs arbitrary: w seen)
  case Nil
  then show ?case by simp
next
  case (Cons a xs)
  show ?case
  proof (cases "walker a w")
    case (Pair r w')
    show ?thesis
    proof (cases r)
      case None
      from Cons.IH[of "seen @ [a]" w'] obtain d where
        "fst (snd (walk_range (recording walker) xs (seen @ [a], w'))) = (seen @ [a]) @ d"
        "prefix d xs"
        "fst (walk_range (recording walker) xs (seen @ [a], w')) = None \<longrightarrow> d = xs"
        by (elim exE conjE)
      then show ?thesis using Pair None
        by (intro exI[of _ "a # d"]) (simp add: recording_apply)
    next
      case (Some e)
      then show ?thesis using Pair
        by (intro exI[of _ "[a]"]) (simp add: recording_apply)
    qed
  qed
qed


lemma walk_range_recording_same:
  "fst (walk_range (recording walker) xs (seen, w)) = fst (walk_range walker xs w)
   \<and> snd (snd (walk_range (recording walker) xs (seen, w))) = snd (walk_range walker xs w)"
  by (induction xs arbitrary: w seen) (auto simp: recording_apply split: prod.splits option.splits)

lemma walk_range_recording_stops:
  assumes "walk_range walker xs w = (None, w1)" and "walker a w1 = (Some err, w2)"
  shows "walk_range (recording walker) (xs @ a # ys) (seen, w) = (Some err, (seen @ xs @ [a], w2))"
proof -
  have "walk_range (recording walker) xs (seen, w) = (None, (seen @ xs, w1))"
    using assms(1) by (rule walk_range_recording_ok)
  then have "walk_range (recording walker) (xs @ a # ys) (seen, w) =
      walk_range (recording walker) (a # ys) (seen @ xs, w1)"
    by (rule walk_range_append)
  then show ?thesis using assms(2) by (simp add: recording_apply)
qed

text \<open>
  C3. Whatever the host returned and whatever the handler is: when the handler succeeds
  on the attributes \<open>xs\<close> visited first and fails on the next attribute \<open>a\<close>,
  WalkResourceAttributes returns the handler's own error, not wrapped, with the state
  that this failing call left, and the handler has been given \<open>xs\<close> and \<open>a\<close> and
  none of the attributes \<open>ys\<close> that come after.
\<close>

theorem WalkResourceAttributes_stops_at_first_failure:
  assumes "call ''Plugin.Attributes'' \<lparr>Resource = resource, AttributeName = attributeName\<rparr> w =
             (Inr resp, w0)"
    and "map snd (range_order resp) = xs @ a # ys"
    and "walk_range walker xs w0 = (None, w1)"
    and "walker a w1 = (Some err, w2)"
  shows "WalkResourceAttributes call range_order resource attributeName walker w = (Some err, w2)
    \<and> WalkResourceAttributes (beside call) range_order resource attributeName (recording walker)
        ([], w) = (Some err, (xs @ [a], w2))"
proof
  show "WalkResourceAttributes call range_order resource attributeName walker w = (Some err, w2)"
    using assms by (simp add: WalkResourceAttributes_def walk_range_stops)
next
  have "walk_range (recording walker) (xs @ a # ys) ([], w0) = (Some err, ([] @ xs @ [a], w2))"
    using assms(3,4) by (rule walk_range_recording_stops)
  then show "WalkResourceAttributes (beside call) range_order resource attributeName
      (recording walker) ([], w) = (Some err, (xs @ [a], w2))"
    using assms(1,2) by (simp add: WalkResourceAttributes_def beside_apply)
qed

theorem WalkResourceAttributes_stops_at_first_failure_witness:
  "WalkResourceAttributes
     (replying [(''ami'', attribute_named ''ami''), (''tags'', attribute_named ''tags''),
                (''zone'', attribute_named ''zone'')])
     (\<lambda>resp. resp) ''aws_instance'' ''*'' (failing_on ''tags'') 0 =
     (Some (ForeignError ''handler failed''), 2)
   \<and> WalkResourceAttributes
     (beside (replying [(''ami'', attribute_named ''ami''), (''tags'', attribute_named ''tags''),
                (''zone'', attribute_named ''zone'')]))
     (\<lambda>resp. resp) ''aws_instance'' ''*'' (recording (failing_on ''tags'')) ([], 0) =
     (Some (ForeignError ''handler failed''),
      ([attribute_named ''ami'', attribute_named ''tags''], 2))"
  using WalkResourceAttributes_stops_at_first_failure
    [where call = "replying [(''ami'', attribute_named ''ami''), (''tags'', attribute_named ''tags''),
                (''zone'', attribute_named ''zone'')]"
       and resp = "[(''ami'', attribute_named ''ami''), (''tags'', attribute_named ''tags''),
                (''zone'', attribute_named ''zone'')]"
       and range_order = "\<lambda>resp. resp" and resource = "''aws_instance''"
       and attributeName = "''*''" and w = 0 and ?w0.0 = 0 and ?w1.0 = 1 and ?w2.0 = 2
       and xs = "[attribute_named ''ami'']" and a = "attribute_named ''tags''"
       and ys = "[attribute_named ''zone'']" and walker = "failing_on ''tags''"
       and err = "ForeignError ''handler failed''"]
  by (simp add: replying_def failing_on_def attribute_named_def)

text \<open>
  C8. When the call succeeds and the host returns no attribute, WalkResourceAttributes
  returns nil, the state is the one the call left, and the handler has been given
  nothing.
\<close>

theorem WalkResourceAttributes_empty_reply:
  assumes "call ''Plugin.Attributes'' \<lparr>Resource = resource, AttributeName = attributeName\<rparr> w =
             (Inr [], w0)"
    and "range_visits range_order []"
  shows "WalkResourceAttributes call range_order resource attributeName walker w = (None, w0)
    \<and> WalkResourceAttributes (beside call) range_order resource attributeName (recording walker)
        ([], w) = (None, ([], w0))"
  using assms by (simp add: WalkResourceAttributes_def beside_apply range_visits_def)

theorem WalkResourceAttributes_empty_reply_witness:
  "range_visits (\<lambda>resp. resp) []
   \<and> WalkResourceAttributes (replying []) (\<lambda>resp. resp) ''aws_instance'' ''ami''
       (failing_on ''ami'') 0 = (None, 0)
   \<and> WalkResourceAttributes (beside (replying [])) (\<lambda>resp. resp) ''aws_instance'' ''ami''
       (recording (failing_on ''ami'')) ([], 0) = (None, ([], 0))"
  using WalkResourceAttributes_empty_reply
    [where call = "replying []" and range_order = "\<lambda>resp. resp" and resource = "''aws_instance''"
       and attributeName = "''ami''" and w = "0::nat" and ?w0.0 = 0
       and walker = "failing_on ''ami''"]
  by (simp add: replying_def range_visits_def)

text \<open>
  C4, as amended. The handler is given attributes one after the other in the order in
  which the \<open>range\<close> statement visits the entries of the map: what it has been given
  is a prefix of that order, and all of it when no call of the handler failed. That order
  is a permutation of what the host returned, so no attribute is given twice and none
  that the host did not return. The recording handler changes neither the result nor the
  state.
\<close>

theorem WalkResourceAttributes_delivers_in_range_order:
  assumes "call ''Plugin.Attributes'' \<lparr>Resource = resource, AttributeName = attributeName\<rparr> w =
             (Inr resp, w0)"
    and "range_visits range_order resp"
  shows "prefix (fst (snd (WalkResourceAttributes (beside call) range_order resource attributeName
             (recording walker) ([], w))))
           (map snd (range_order resp))
    \<and> (fst (WalkResourceAttributes (beside call) range_order resource attributeName
             (recording walker) ([], w)) = None \<longrightarrow>
         fst (snd (WalkResourceAttributes (beside call) range_order resource attributeName
             (recording walker) ([], w))) = map snd (range_order resp))
    \<and> mset (map snd (range_order resp)) = mset (map snd resp)
    \<and> fst (WalkResourceAttributes (beside call) range_order resource attributeName
             (recording walker) ([], w)) =
        fst (WalkResourceAttributes call range_order resource attributeName walker w)
    \<and> snd (snd (WalkResourceAttributes (beside call) range_order resource attributeName
             (recording walker) ([], w))) =
        snd (WalkResourceAttributes call range_order resource attributeName walker w)"
proof -
  let ?order = "map snd (range_order resp)"
  have run: "WalkResourceAttributes (beside call) range_order resource attributeName
      (recording walker) ([], w) = walk_range (recording walker) ?order ([], w0)"
    using assms(1) by (simp add: WalkResourceAttributes_def beside_apply)
  have plain: "WalkResourceAttributes call range_order resource attributeName walker w =
      walk_range walker ?order w0"
    using assms(1) by (simp add: WalkResourceAttributes_def)
  obtain d where d: "fst (snd (walk_range (recording walker) ?order ([], w0))) = [] @ d"
      "prefix d ?order"
      "fst (walk_range (recording walker) ?order ([], w0)) = None \<longrightarrow> d = ?order"
    using walk_range_recording_prefix[of walker ?order "[]" w0] by (elim exE conjE)
  have perm: "mset ?order = mset (map snd resp)"
    using assms(2) unfolding range_visits_def by (metis mset_map)
  show ?thesis
    unfolding run plain using d perm walk_range_recording_same[of walker ?order "[]" w0]
    by simp
qed

theorem WalkResourceAttributes_delivers_in_range_order_witness:
  "range_visits rev [(''ami'', attribute_named ''ami''), (''tags'', attribute_named ''tags'')]
   \<and> WalkResourceAttributes
       (beside (replying [(''ami'', attribute_named ''ami''), (''tags'', attribute_named ''tags'')]))
       rev ''aws_instance'' ''*'' (recording (failing_on ''none'')) ([], 0) =
     (None, ([attribute_named ''tags'', attribute_named ''ami''], 2))"
  using WalkResourceAttributes_delivers_in_range_order
    [where call = "replying [(''ami'', attribute_named ''ami''), (''tags'', attribute_named ''tags'')]"
       and resp = "[(''ami'', attribute_named ''ami''), (''tags'', attribute_named ''tags'')]"
       and range_order = rev and resource = "''aws_instance''" and attributeName = "''*''"
       and w = "0::nat" and ?w0.0 = 0 and walker = "failing_on ''none''"]
  by (simp add: replying_def range_visits_def WalkResourceAttributes_def beside_apply
      recording_apply failing_on_def attribute_named_def)

text \<open>
  C4, as stated, fails: the host wrote \<open>ami\<close> before \<open>tags\<close>, the visit of the
  two-entry map starts at \<open>tags\<close>, and the handler is given \<open>tags\<close> first.
\<close>

theorem WalkResourceAttributes_host_order_counterexample:
  "range_visits rev [(''ami'', attribute_named ''ami''), (''tags'', attribute_named ''tags'')]
   \<and> fst (snd (WalkResourceAttributes
       (beside (replying [(''ami'', attribute_named ''ami''), (''tags'', attribute_named ''tags'')]))
       rev ''aws_instance'' ''*'' (recording (failing_on ''none'')) ([], 0))) =
       [attribute_named ''tags'', attribute_named ''ami'']
   \<and> [attribute_named ''tags'', attribute_named ''ami''] \<noteq>
       map snd [(''ami'', attribute_named ''ami''), (''tags'', attribute_named ''tags'')]"
  by (simp add: replying_def range_visits_def WalkResourceAttributes_def beside_apply
      recording_apply failing_on_def attribute_named_def)

subsection \<open>EvaluateExpr\<close>

lemma EvaluateExpr_after_reply:
  assumes "call ''Plugin.EvalExpr'' expr w = (Inr val, w')"
  shows "EvaluateExpr call convert fromCty expr ret (w, lg) =
    (case type_switch convert (pointee ret) val of
       Inl cause \<Rightarrow>
         (Some (AppError (MkError TypeConversionError ErrorLevel
                  (invalid_type_expression expr) (Some cause))),
          content ret,
          (w', lg @ [Printf ''[ERROR] %s''
                      [AppError (MkError TypeConversionError ErrorLevel
                         (invalid_type_expression expr) (Some cause))]]))
     | Inr val' \<Rightarrow>
         (case fromCty val' ret of
            (Some cause, stored) \<Rightarrow>
              (Some (AppError (MkError TypeMismatchError ErrorLevel
                       (invalid_type_expression expr) (Some cause))),
               stored,
               (w', lg @ [Printf ''[ERROR] %s''
                           [AppError (MkError TypeMismatchError ErrorLevel
                              (invalid_type_expression expr) (Some cause))]]))
          | (None, stored) \<Rightarrow> (None, stored, (w', lg))))"
  using assms by (simp add: EvaluateExpr_def Let_def split: sum.splits prod.splits option.splits)

lemma type_switch_unsupported:
  "\<not> supported_shape ty \<Longrightarrow> type_switch convert ty val = Inr val"
  by (induction convert ty val rule: type_switch.induct) (simp_all add: supported_shape_def)

text \<open>
  C6. After the host has answered, the error of EvaluateExpr is tagged
  TypeConversionError exactly when the type-level conversion chosen by the type switch
  failed, and TypeMismatchError exactly when that conversion succeeded (or none was
  asked for) and the decoding into the destination failed. In both cases the message is
  "Invalid type expression in" followed by the file name of the expression, a colon and
  its start line, the cause is the error of the step that failed, and the log has
  one more record: the format "[ERROR] %s" with the returned error as its argument.
  Without an error the log is unchanged.
\<close>

theorem EvaluateExpr_conversion_errors:
  assumes "call ''Plugin.EvalExpr'' expr w = (Inr val, w')"
  shows "((\<exists>e. fst (EvaluateExpr call convert fromCty expr ret (w, lg)) = Some (AppError e)
                \<and> Code e = TypeConversionError)
            \<longleftrightarrow> isl (type_switch convert (pointee ret) val))
    \<and> ((\<exists>e. fst (EvaluateExpr call convert fromCty expr ret (w, lg)) = Some (AppError e)
                \<and> Code e = TypeMismatchError)
            \<longleftrightarrow> (\<exists>val'. type_switch convert (pointee ret) val = Inr val'
                         \<and> fst (fromCty val' ret) \<noteq> None))
    \<and> (\<forall>err. fst (EvaluateExpr call convert fromCty expr ret (w, lg)) = Some err \<longrightarrow>
          (\<exists>e. err = AppError e
             \<and> Message e = ''Invalid type expression in '' @ Filename (Range expr) @ '':''
                             @ Itoa (Line (Start (Range expr)))
             \<and> Cause e = (case type_switch convert (pointee ret) val of
                             Inl cause \<Rightarrow> Some cause
                           | Inr val' \<Rightarrow> fst (fromCty val' ret))
             \<and> snd (snd (snd (EvaluateExpr call convert fromCty expr ret (w, lg)))) =
                 lg @ [Printf ''[ERROR] %s'' [err]]))
    \<and> (fst (EvaluateExpr call convert fromCty expr ret (w, lg)) = None \<longrightarrow>
          snd (snd (snd (EvaluateExpr call convert fromCty expr ret (w, lg)))) = lg)"
  unfolding EvaluateExpr_after_reply[where call = call and w = w, OF assms]
  by (auto simp: invalid_type_expression_def split: sum.splits prod.splits option.splits)

theorem EvaluateExpr_conversion_errors_witness:
  "replying (StringVal ''abc'') ''Plugin.EvalExpr''
      \<lparr>Source = ''var.count'', Range = at_line ''main.tf'' 12\<rparr> (0::nat) =
     (Inr (StringVal ''abc''), 0)
   \<and> EvaluateExpr (replying (StringVal ''abc'')) convert_Convert gocty_FromCtyValue
       \<lparr>Source = ''var.count'', Range = at_line ''main.tf'' 12\<rparr>
       \<lparr>pointee = GoInt, content = GoIntV 0\<rparr> (0::nat, []) =
     (Some (AppError (MkError TypeConversionError ErrorLevel
              ''Invalid type expression in main.tf:12''
              (Some (ForeignError ''a number is required'')))),
      GoIntV 0,
      (0, [Printf ''[ERROR] %s''
             [AppError (MkError TypeConversionError ErrorLevel
                ''Invalid type expression in main.tf:12''
                (Some (ForeignError ''a number is required'')))]]))"
  using EvaluateExpr_conversion_errors
    [where call = "replying (StringVal ''abc'')" and val = "StringVal ''abc''"
       and expr = "\<lparr>Source = ''var.count'', Range = at_line ''main.tf'' 12\<rparr>"
       and w = "0::nat" and w' = 0 and convert = convert_Convert
       and fromCty = gocty_FromCtyValue and ret = "\<lparr>pointee = GoInt, content = GoIntV 0\<rparr>"
       and lg = "[]"]
  by (simp add: Let_def replying_def EvaluateExpr_def ParseNumberVal_def parse_digits_def
      invalid_type_expression_def at_line_def Itoa_def digits.simps)

text \<open>
  C10. After the host has answered, every error that EvaluateExpr returns is a
  classified error of level Error with the code TypeConversionError or
  TypeMismatchError, and EnsureNoError returns that error as it is, without running the
  continuation.
\<close>

theorem EvaluateExpr_errors_are_fatal:
  assumes "call ''Plugin.EvalExpr'' expr w = (Inr val, w')"
    and "fst (EvaluateExpr call convert fromCty expr ret (w, lg)) = Some err"
  shows "(\<exists>e. err = AppError e \<and> Level e = ErrorLevel
              \<and> (Code e = TypeConversionError \<or> Code e = TypeMismatchError))
    \<and> EnsureNoError (Some err) proc s = (Returned (Some err), s)"
  using assms(2) unfolding EvaluateExpr_after_reply[where call = call and w = w, OF assms(1)]
  by (auto simp: EnsureNoError_def split: sum.splits prod.splits option.splits)

theorem EvaluateExpr_errors_are_fatal_witness:
  "replying (NullVal cty_String) ''Plugin.EvalExpr''
      \<lparr>Source = ''var.name'', Range = at_line ''main.tf'' 3\<rparr> (0::nat) =
     (Inr (NullVal cty_String), 0)
   \<and> fst (EvaluateExpr (replying (NullVal cty_String)) convert_Convert gocty_FromCtyValue
       \<lparr>Source = ''var.name'', Range = at_line ''main.tf'' 3\<rparr>
       \<lparr>pointee = GoString, content = GoStringV ''old''\<rparr> (0::nat, [])) =
     Some (AppError (MkError TypeMismatchError ErrorLevel
              ''Invalid type expression in main.tf:3''
              (Some (ForeignError ''null value is not allowed''))))
   \<and> EnsureNoError
       (Some (AppError (MkError TypeMismatchError ErrorLevel
              ''Invalid type expression in main.tf:3''
              (Some (ForeignError ''null value is not allowed'')))))
       (\<lambda>s::nat. (None, Suc s)) 0 =
     (Returned (Some (AppError (MkError TypeMismatchError ErrorLevel
              ''Invalid type expression in main.tf:3''
              (Some (ForeignError ''null value is not allowed''))))), 0)"
  using EvaluateExpr_errors_are_fatal
    [where call = "replying (NullVal cty_String)" and val = "NullVal cty_String"
       and expr = "\<lparr>Source = ''var.name'', Range = at_line ''main.tf'' 3\<rparr>"
       and w = "0::nat" and w' = 0 and convert = convert_Convert
       and fromCty = gocty_FromCtyValue
       and ret = "\<lparr>pointee = GoString, content = GoStringV ''old''\<rparr>"
       and lg = "[]" and proc = "\<lambda>s::nat. (None, Suc s)" and s = 0
       and err = "AppError (MkError TypeMismatchError ErrorLevel
              ''Invalid type expression in main.tf:3''
              (Some (ForeignError ''null value is not allowed'')))"]
  by (simp add: Let_def replying_def EvaluateExpr_def gocty_FromCtyValue_def
      invalid_type_expression_def at_line_def Itoa_def digits.simps)

text \<open>
  C5, as amended. For a destination outside the six supported shapes EvaluateExpr asks
  for no type-level conversion and hands the value of the host to the decoder as it is:
  it returns nil with what the decoder stored when the decoding succeeds, and a
  classified error of level Error and code TypeMismatchError, never
  TypeConversionError, when the decoding fails.
\<close>

theorem EvaluateExpr_unsupported_shape:
  assumes "\<not> supported_shape (pointee ret)"
    and "call ''Plugin.EvalExpr'' expr w = (Inr val, w')"
  shows "EvaluateExpr call convert fromCty expr ret (w, lg) =
    (case fromCty val ret of
       (Some cause, stored) \<Rightarrow>
         (Some (AppError (MkError TypeMismatchError ErrorLevel
                  (invalid_type_expression expr) (Some cause))),
          stored,
          (w', lg @ [Printf ''[ERROR] %s''
                      [AppError (MkError TypeMismatchError ErrorLevel
                         (invalid_type_expression expr) (Some cause))]]))
     | (None, stored) \<Rightarrow> (None, stored, (w', lg)))"
  unfolding EvaluateExpr_after_reply[where call = call and w = w, OF assms(2)]
  by (simp add: type_switch_unsupported[OF assms(1)])


theorem EvaluateExpr_unsupported_shape_witness:
  "\<not> supported_shape (GoSlice GoBool)
   \<and> EvaluateExpr (replying (ListVal cty_String [StringVal ''yes''])) convert_Convert
       gocty_FromCtyValue \<lparr>Source = ''var.flags'', Range = at_line ''main.tf'' 7\<rparr>
       \<lparr>pointee = GoSlice GoBool, content = GoSliceV []\<rparr> (0::nat, []) =
     (Some (AppError (MkError TypeMismatchError ErrorLevel
              ''Invalid type expression in main.tf:7''
              (Some (ForeignError ''bool value is required'')))),
      GoSliceV [],
      (0, [Printf ''[ERROR] %s''
             [AppError (MkError TypeMismatchError ErrorLevel
                ''Invalid type expression in main.tf:7''
                (Some (ForeignError ''bool value is required'')))]]))"
  using EvaluateExpr_unsupported_shape
    [where call = "replying (ListVal cty_String [StringVal ''yes''])"
       and val = "ListVal cty_String [StringVal ''yes'']"
       and expr = "\<lparr>Source = ''var.flags'', Range = at_line ''main.tf'' 7\<rparr>"
       and w = "0::nat" and w' = 0 and convert = convert_Convert
       and fromCty = gocty_FromCtyValue
       and ret = "\<lparr>pointee = GoSlice GoBool, content = GoSliceV []\<rparr>" and lg = "[]"]
  by (simp add: replying_def supported_shape_def gocty_FromCtyValue_def
      invalid_type_expression_def at_line_def Itoa_def digits.simps)

text \<open>
  C5, as stated, fails: \<open>*bool\<close> is outside the supported set, the host returns
  \<open>true\<close>, and EvaluateExpr returns nil with \<open>true\<close> stored in the destination.
\<close>

theorem EvaluateExpr_unsupported_shape_counterexample:
  "\<not> supported_shape GoBool
   \<and> EvaluateExpr (replying (BoolVal True)) convert_Convert gocty_FromCtyValue
       \<lparr>Source = ''var.enabled'', Range = at_line ''main.tf'' 5\<rparr>
       \<lparr>pointee = GoBool, content = GoBoolV False\<rparr> (0::nat, []) =
     (None, GoBoolV True, (0, []))"
  by (simp add: replying_def supported_shape_def EvaluateExpr_def gocty_FromCtyValue_def)


subsection \<open>Transport failures\<close>

text \<open>
  C7. When the call of the transport fails, each of WalkResourceAttributes,
  EvaluateExpr and EmitIssue returns the error of the call as it is: not wrapped in a
  classified error and with no level given to it. The state is the one that this single
  call left, so the call is not made again; no handler has run, the destination is
  untouched and nothing is logged.
\<close>

theorem transport_failure_is_returned:
  "(callA ''Plugin.Attributes'' \<lparr>Resource = resource, AttributeName = attributeName\<rparr> w =
      (Inl err, w') \<longrightarrow>
    WalkResourceAttributes callA range_order resource attributeName walker w = (Some err, w'))
   \<and> (callE ''Plugin.EvalExpr'' expr w = (Inl err, w') \<longrightarrow>
    EvaluateExpr callE convert fromCty expr ret (w, lg) = (Some err, content ret, (w', lg)))
   \<and> (callI ''Plugin.EmitIssue''
        \<lparr>Rule = newObjectFromRule rule, Message' = message, Location = location, Meta = meta\<rparr> w =
      (Inl err, w') \<longrightarrow>
    EmitIssue callI newObjectFromRule rule message location meta w = (Some err, w'))"
  by (simp add: WalkResourceAttributes_def EvaluateExpr_def EmitIssue_def)

theorem transport_failure_is_returned_witness:
  "WalkResourceAttributes (\<lambda>method args. counted (failing (ForeignError ''connection is shut down'') method args))
     (\<lambda>resp. resp) ''aws_instance'' ''ami'' (\<lambda>a (n, k). (None, (n, Suc k))) (0, 0::nat) =
     (Some (ForeignError ''connection is shut down''), (1, 0))
   \<and> EvaluateExpr (\<lambda>method args. counted (failing (ForeignError ''connection is shut down'') method args))
       convert_Convert gocty_FromCtyValue \<lparr>Source = ''var.name'', Range = at_line ''main.tf'' 3\<rparr>
       \<lparr>pointee = GoString, content = GoStringV ''old''\<rparr> ((0, 0::nat), []) =
     (Some (ForeignError ''connection is shut down''), GoStringV ''old'', ((1, 0), []))
   \<and> EmitIssue (\<lambda>method args. counted (failing (ForeignError ''connection is shut down'') method args))
       (\<lambda>rule::string. rule) ''aws_instance_invalid_type'' ''invalid type'' (at_line ''main.tf'' 3)
       () (0, 0::nat) =
     (Some (ForeignError ''connection is shut down''), (1, 0))"
  using transport_failure_is_returned
    [where callA = "\<lambda>method args. counted (failing (ForeignError ''connection is shut down'') method args)"
       and callE = "\<lambda>method args. counted (failing (ForeignError ''connection is shut down'') method args)"
       and callI = "\<lambda>method args. counted (failing (ForeignError ''connection is shut down'') method args)"
       and err = "ForeignError ''connection is shut down''"
       and w = "(0, 0::nat)" and w' = "(1, 0::nat)"
       and range_order = "\<lambda>resp. resp" and resource = "''aws_instance''"
       and attributeName = "''ami''" and walker = "\<lambda>a (n, k). (None, (n, Suc k))"
       and convert = convert_Convert and fromCty = gocty_FromCtyValue
       and expr = "\<lparr>Source = ''var.name'', Range = at_line ''main.tf'' 3\<rparr>"
       and ret = "\<lparr>pointee = GoString, content = GoStringV ''old''\<rparr>" and lg = "[]"
       and newObjectFromRule = "\<lambda>rule::string. rule" and rule = "''aws_instance_invalid_type''"
       and message = "''invalid type''" and location = "at_line ''main.tf'' 3" and meta = "()"]
  by (simp add: counted_def failing_def)

subsection \<open>Round trips\<close>

lemma fromCtyElems_strings:
  "fromCtyElems (map StringVal xs) GoString = Inr (map GoStringV xs)"
  by (induction xs) simp_all

lemma fromCtyElems_numbers:
  "\<forall>n \<in> set ns. in_int64 n \<Longrightarrow> fromCtyElems (map NumberVal ns) GoInt = Inr (map GoIntV ns)"
  by (induction ns) simp_all

lemma fromCtyEntries_strings:
  "fromCtyEntries (map (\<lambda>(k, s). (k, StringVal s)) kss) GoString =
     Inr (map (\<lambda>(k, s). (k, GoStringV s)) kss)"
  by (induction kss) (simp_all split: prod.splits)

lemma fromCtyEntries_numbers:
  "\<forall>(k, n) \<in> set kns. in_int64 n \<Longrightarrow>
   fromCtyEntries (map (\<lambda>(k, n). (k, NumberVal n)) kns) GoInt =
     Inr (map (\<lambda>(k, n). (k, GoIntV n)) kns)"
  by (induction kns) (auto split: prod.splits)

text \<open>
  C9, as amended. A dynamic value that is the dynamic form of a value the destination
  can hold is stored in the destination as it is, with no error and nothing logged: a
  string into \<open>*string\<close>, a whole number within the range of \<open>int\<close> into \<open>*int\<close>,
  a list of strings into \<open>*[]string\<close>, a list of such numbers into \<open>*[]int\<close>, a map
  of strings into \<open>*map[string]string\<close> and a map of such numbers into
  \<open>*map[string]int\<close>, where no element of a list or a map is null or unknown. The map
  \<open>{"a": "1", "b": "2"}\<close> of strings yields \<open>{"a": 1, "b": 2}\<close> in a
  \<open>*map[string]int\<close> and itself in a \<open>*map[string]string\<close>.
\<close>

theorem EvaluateExpr_round_trip:
  "EvaluateExpr (replying (StringVal x)) convert_Convert gocty_FromCtyValue expr
      \<lparr>pointee = GoString, content = old\<rparr> (w, lg) = (None, GoStringV x, (w, lg))
   \<and> (in_int64 n \<longrightarrow>
      EvaluateExpr (replying (NumberVal n)) convert_Convert gocty_FromCtyValue expr
        \<lparr>pointee = GoInt, content = old\<rparr> (w, lg) = (None, GoIntV n, (w, lg)))
   \<and> EvaluateExpr (replying (ListVal cty_String (map StringVal xs))) convert_Convert
        gocty_FromCtyValue expr \<lparr>pointee = GoSlice GoString, content = old\<rparr> (w, lg) =
      (None, GoSliceV (map GoStringV xs), (w, lg))
   \<and> ((\<forall>n \<in> set ns. in_int64 n) \<longrightarrow>
      EvaluateExpr (replying (ListVal cty_Number (map NumberVal ns))) convert_Convert
        gocty_FromCtyValue expr \<lparr>pointee = GoSlice GoInt, content = old\<rparr> (w, lg) =
      (None, GoSliceV (map GoIntV ns), (w, lg)))
   \<and> EvaluateExpr (replying (MapVal cty_String (map (\<lambda>(k, s). (k, StringVal s)) kss)))
        convert_Convert gocty_FromCtyValue expr \<lparr>pointee = GoMap GoString, content = old\<rparr>
        (w, lg) =
      (None, GoMapV (map_of (map (\<lambda>(k, s). (k, GoStringV s)) kss)), (w, lg))
   \<and> ((\<forall>(k, n) \<in> set kns. in_int64 n) \<longrightarrow>
      EvaluateExpr (replying (MapVal cty_Number (map (\<lambda>(k, n). (k, NumberVal n)) kns)))
        convert_Convert gocty_FromCtyValue expr \<lparr>pointee = GoMap GoInt, content = old\<rparr>
        (w, lg) =
      (None, GoMapV (map_of (map (\<lambda>(k, n). (k, GoIntV n)) kns)), (w, lg)))
   \<and> EvaluateExpr (replying (MapVal cty_String [(''a'', StringVal ''1''), (''b'', StringVal ''2'')]))
        convert_Convert gocty_FromCtyValue expr \<lparr>pointee = GoMap GoInt, content = old\<rparr>
        (w, lg) =
      (None, GoMapV [''a'' \<mapsto> GoIntV 1, ''b'' \<mapsto> GoIntV 2], (w, lg))
   \<and> EvaluateExpr (replying (MapVal cty_String [(''a'', StringVal ''1''), (''b'', StringVal ''2'')]))
        convert_Convert gocty_FromCtyValue expr \<lparr>pointee = GoMap GoString, content = old\<rparr>
        (w, lg) =
      (None, GoMapV [''a'' \<mapsto> GoStringV ''1'', ''b'' \<mapsto> GoStringV ''2''], (w, lg))"
proof (intro conjI impI)
  show "EvaluateExpr (replying (StringVal x)) convert_Convert gocty_FromCtyValue expr
      \<lparr>pointee = GoString, content = old\<rparr> (w, lg) = (None, GoStringV x, (w, lg))"
    by (simp add: EvaluateExpr_def replying_def gocty_FromCtyValue_def)
next
  assume "in_int64 n"
  then show "EvaluateExpr (replying (NumberVal n)) convert_Convert gocty_FromCtyValue expr
        \<lparr>pointee = GoInt, content = old\<rparr> (w, lg) = (None, GoIntV n, (w, lg))"
    by (simp add: EvaluateExpr_def replying_def gocty_FromCtyValue_def)
next
  show "EvaluateExpr (replying (ListVal cty_String (map StringVal xs))) convert_Convert
        gocty_FromCtyValue expr \<lparr>pointee = GoSlice GoString, content = old\<rparr> (w, lg) =
      (None, GoSliceV (map GoStringV xs), (w, lg))"
    by (simp add: EvaluateExpr_def replying_def gocty_FromCtyValue_def fromCtyElems_strings)
next
  assume "\<forall>n \<in> set ns. in_int64 n"
  then show "EvaluateExpr (replying (ListVal cty_Number (map NumberVal ns))) convert_Convert
        gocty_FromCtyValue expr \<lparr>pointee = GoSlice GoInt, content = old\<rparr> (w, lg) =
      (None, GoSliceV (map GoIntV ns), (w, lg))"
    by (simp add: EvaluateExpr_def replying_def gocty_FromCtyValue_def fromCtyElems_numbers)
next
  show "EvaluateExpr (replying (MapVal cty_String (map (\<lambda>(k, s). (k, StringVal s)) kss)))
        convert_Convert gocty_FromCtyValue expr \<lparr>pointee = GoMap GoString, content = old\<rparr>
        (w, lg) =
      (None, GoMapV (map_of (map (\<lambda>(k, s). (k, GoStringV s)) kss)), (w, lg))"
    by (simp add: EvaluateExpr_def replying_def gocty_FromCtyValue_def fromCtyEntries_strings)
next
  assume "\<forall>(k, n) \<in> set kns. in_int64 n"
  then show "EvaluateExpr (replying (MapVal cty_Number (map (\<lambda>(k, n). (k, NumberVal n)) kns)))
        convert_Convert gocty_FromCtyValue expr \<lparr>pointee = GoMap GoInt, content = old\<rparr>
        (w, lg) =
      (None, GoMapV (map_of (map (\<lambda>(k, n). (k, GoIntV n)) kns)), (w, lg))"
    by (simp add: EvaluateExpr_def replying_def gocty_FromCtyValue_def fromCtyEntries_numbers)
next
  have "map_of [(''a'', GoIntV 1), (''b'', GoIntV 2)] = [''a'' \<mapsto> GoIntV 1, ''b'' \<mapsto> GoIntV 2]"
    by (rule ext) simp
  then show "EvaluateExpr (replying (MapVal cty_String [(''a'', StringVal ''1''), (''b'', StringVal ''2'')]))
        convert_Convert gocty_FromCtyValue expr \<lparr>pointee = GoMap GoInt, content = old\<rparr>
        (w, lg) =
      (None, GoMapV [''a'' \<mapsto> GoIntV 1, ''b'' \<mapsto> GoIntV 2], (w, lg))"
    by (simp add: EvaluateExpr_def replying_def gocty_FromCtyValue_def ParseNumberVal_def
        parse_digits_def in_int64_def)
next
  have "map_of [(''a'', GoStringV ''1''), (''b'', GoStringV ''2'')] =
      [''a'' \<mapsto> GoStringV ''1'', ''b'' \<mapsto> GoStringV ''2'']"
    by (rule ext) simp
  then show "EvaluateExpr (replying (MapVal cty_String [(''a'', StringVal ''1''), (''b'', StringVal ''2'')]))
        convert_Convert gocty_FromCtyValue expr \<lparr>pointee = GoMap GoString, content = old\<rparr>
        (w, lg) =
      (None, GoMapV [''a'' \<mapsto> GoStringV ''1'', ''b'' \<mapsto> GoStringV ''2''], (w, lg))"
    by (simp add: EvaluateExpr_def replying_def gocty_FromCtyValue_def)
qed

theorem EvaluateExpr_round_trip_witness:
  "in_int64 1 \<and> in_int64 2 \<and> in_int64 3
   \<and> EvaluateExpr (replying (StringVal ''x'')) convert_Convert gocty_FromCtyValue
       \<lparr>Source = ''var.name'', Range = at_line ''main.tf'' 3\<rparr>
       \<lparr>pointee = GoString, content = GoStringV []\<rparr> (0::nat, []) =
     (None, GoStringV ''x'', (0, []))
   \<and> EvaluateExpr (replying (ListVal cty_Number [NumberVal 1, NumberVal 2, NumberVal 3]))
       convert_Convert gocty_FromCtyValue
       \<lparr>Source = ''var.name'', Range = at_line ''main.tf'' 3\<rparr>
       \<lparr>pointee = GoSlice GoInt, content = GoSliceV []\<rparr> (0::nat, []) =
     (None, GoSliceV [GoIntV 1, GoIntV 2, GoIntV 3], (0, []))
   \<and> EvaluateExpr (replying (MapVal cty_String [(''a'', StringVal ''1''), (''b'', StringVal ''2'')]))
       convert_Convert gocty_FromCtyValue
       \<lparr>Source = ''var.name'', Range = at_line ''main.tf'' 3\<rparr>
       \<lparr>pointee = GoMap GoInt, content = GoMapV Map.empty\<rparr> (0::nat, []) =
     (None, GoMapV [''a'' \<mapsto> GoIntV 1, ''b'' \<mapsto> GoIntV 2], (0, []))"
  using EvaluateExpr_round_trip
    [where x = "''x''" and w = "0::nat" and lg = "[]" and old = "GoStringV []"
       and expr = "\<lparr>Source = ''var.name'', Range = at_line ''main.tf'' 3\<rparr>"]
    EvaluateExpr_round_trip
    [where ns = "[1, 2, 3]" and w = "0::nat" and lg = "[]" and old = "GoSliceV []"
       and expr = "\<lparr>Source = ''var.name'', Range = at_line ''main.tf'' 3\<rparr>"]
    EvaluateExpr_round_trip
    [where w = "0::nat" and lg = "[]" and old = "GoMapV Map.empty"
       and expr = "\<lparr>Source = ''var.name'', Range = at_line ''main.tf'' 3\<rparr>"]
  by (simp add: in_int64_def)

text \<open>
  C9, as stated, fails on values whose shape matches the destination. The number
  \<open>2^63\<close> is a dynamic number and the destination is \<open>*int\<close>: the conversion to
  number succeeds, the decoder refuses the number as outside the range of \<open>int\<close>, and
  EvaluateExpr returns a TypeMismatchError. The list of the string \<open>"a"\<close> and the null
  string is a dynamic list of string and the destination is \<open>*[]string\<close>: the decoder
  refuses the null element, and EvaluateExpr returns a TypeMismatchError. Both
  destinations keep what they held.
\<close>

theorem EvaluateExpr_round_trip_counterexample:
  "cty_Type (NumberVal 9223372036854775808) = cty_Number
   \<and> EvaluateExpr (replying (NumberVal 9223372036854775808)) convert_Convert gocty_FromCtyValue
       \<lparr>Source = ''var.size'', Range = at_line ''main.tf'' 3\<rparr>
       \<lparr>pointee = GoInt, content = GoIntV 0\<rparr> (0::nat, []) =
     (Some (AppError (MkError TypeMismatchError ErrorLevel
              ''Invalid type expression in main.tf:3''
              (Some (ForeignError ''value must be a whole number, between -9223372036854775808 and 9223372036854775807'')))),
      GoIntV 0,
      (0, [Printf ''[ERROR] %s''
             [AppError (MkError TypeMismatchError ErrorLevel
                ''Invalid type expression in main.tf:3''
                (Some (ForeignError ''value must be a whole number, between -9223372036854775808 and 9223372036854775807'')))]]))
   \<and> cty_Type (ListVal cty_String [StringVal ''a'', NullVal cty_String]) = cty_List cty_String
   \<and> EvaluateExpr (replying (ListVal cty_String [StringVal ''a'', NullVal cty_String]))
       convert_Convert gocty_FromCtyValue
       \<lparr>Source = ''var.names'', Range = at_line ''main.tf'' 4\<rparr>
       \<lparr>pointee = GoSlice GoString, content = GoSliceV []\<rparr> (0::nat, []) =
     (Some (AppError (MkError TypeMismatchError ErrorLevel
              ''Invalid type expression in main.tf:4''
              (Some (ForeignError ''null value is not allowed'')))),
      GoSliceV [],
      (0, [Printf ''[ERROR] %s''
             [AppError (MkError TypeMismatchError ErrorLevel
                ''Invalid type expression in main.tf:4''
                (Some (ForeignError ''null value is not allowed'')))]]))"
  by (simp add: Let_def replying_def EvaluateExpr_def gocty_FromCtyValue_def in_int64_def
      invalid_type_expression_def at_line_def Itoa_def digits.simps)

end
